theory Spec2Isabelle
  imports Complex_Main
begin

section \<open>Values of the host platform\<close>

text \<open>
  The PDF utilities of the repository (\<^verbatim>\<open>advancedGeneratePDF\<close> and
  \<^verbatim>\<open>simpleGeneratePDF\<close> of \<^verbatim>\<open>utils/simplePdf\<close>, \<^verbatim>\<open>generatePDF\<close> of
  \<^verbatim>\<open>utils/pdfGenerator.ts\<close>, \<^verbatim>\<open>debugElement\<close> of \<^verbatim>\<open>utils/debugPdf\<close>) are
  embedded as functions over an explicit state.

  Numbers. The source computes with JavaScript numbers. The embedding reads every
  arithmetic expression of the source as exact arithmetic over the rationals, and pixel
  dimensions of a canvas as naturals. Rounding of IEEE doubles is outside the model, and
  so is division by zero (a quotient \<open>x / 0\<close> is \<open>0\<close> in HOL and infinite or NaN in
  the source). The only divisors of the source are the canvas width, which the source
  checks before dividing, the scaled image height and the content height; the theorems
  about runs that paginate assume a page larger than its margins, under which none of
  them is zero.
\<close>

type_synonym number = rat

text \<open>
  Text content of a DOM node is a sequence of UTF-16 code units. \<^verbatim>\<open>String.prototype.trim\<close>
  strips the ECMAScript \<^verbatim>\<open>WhiteSpace\<close> and \<^verbatim>\<open>LineTerminator\<close> code points from
  both ends.
\<close>

type_synonym dom_string = "nat list"

definition is_white_space :: "nat \<Rightarrow> bool" where
  "is_white_space c \<longleftrightarrow>
     c \<in> set [9, 10, 11, 12, 13, 32, 160, 5760, 8232, 8233, 8239, 8287, 12288, 65279]
     \<or> (8192 \<le> c \<and> c \<le> 8202)"

definition trim :: "dom_string \<Rightarrow> dom_string" where
  "trim s = rev (dropWhile is_white_space (rev (dropWhile is_white_space s)))"

text \<open>
  A thrown value is an \<^verbatim>\<open>Error\<close> object with its message, or any other value.
\<close>

datatype thrown = Error string | NonError

fun starts_with :: "string \<Rightarrow> string \<Rightarrow> bool" where
  "starts_with s [] = True"
| "starts_with [] (c # cs) = False"
| "starts_with (x # xs) (c # cs) = (x = c \<and> starts_with xs cs)"

text \<open>\<^verbatim>\<open>String.prototype.includes\<close>.\<close>

fun str_includes :: "string \<Rightarrow> string \<Rightarrow> bool" where
  "str_includes [] sub = (sub = [])"
| "str_includes (x # xs) sub = (starts_with (x # xs) sub \<or> str_includes xs sub)"

section \<open>The source element\<close>

text \<open>
  The inline style properties the utilities read and write. The empty string is an unset
  property.
\<close>

record css_style =
  overflow :: string
  height :: string
  maxHeight :: string

text \<open>
  An \<^verbatim>\<open>img\<close> descendant is complete, or pending; a pending image fires
  \<^verbatim>\<open>load\<close> or \<^verbatim>\<open>error\<close> later (\<open>Pending True\<close>) or never (\<open>Pending False\<close>).
\<close>

datatype img = Complete | Pending bool

text \<open>
  The element handed to the utilities: its text content (\<^verbatim>\<open>string | null\<close>), its
  inline style, the inline style of its parent element (\<open>None\<close> when the element is
  detached: \<^verbatim>\<open>parentElement\<close> is \<^verbatim>\<open>null\<close>), its scroll offset, whether
  \<^verbatim>\<open>offsetParent\<close> is non-null, and its \<^verbatim>\<open>img\<close> descendants. The parameter type
  \<^verbatim>\<open>HTMLElement\<close> of the source excludes \<^verbatim>\<open>null\<close>, so the guard
  \<^verbatim>\<open>if (!element)\<close> has no branch in the model.
\<close>

record dom_element =
  textContent :: "dom_string option"
  style :: css_style
  parentElement :: "css_style option"
  scrollTop :: nat
  offsetParent :: bool
  images :: "img list"

section \<open>Collaborators: rasterizer and document assembler\<close>

datatype capture_result = Rejects thrown | Canvas nat nat

text \<open>
  What the external libraries do in one run: the page size the assembler reports for
  its format (\<^verbatim>\<open>pdf.internal.pageSize\<close>), the result of \<^verbatim>\<open>html2canvas\<close> (a
  rejection, or a canvas with its pixel width and height), the data URL that
  \<^verbatim>\<open>canvas.toDataURL\<close> returns for the whole canvas, the calls of
  \<^verbatim>\<open>pdf.addImage\<close> that throw (by call index, from 0), and whether
  \<^verbatim>\<open>pdf.save\<close> and the blob export of the alternate download path throw.
  \<^verbatim>\<open>document.fonts.ready\<close> may be absent.
\<close>

record env =
  pageWidth :: number
  pageHeight :: number
  html2canvas :: capture_result
  toDataURL :: string
  addImage_throws :: "nat \<Rightarrow> thrown option"
  save_throws :: "thrown option"
  output_blob_throws :: "thrown option"
  fonts_ready :: bool

text \<open>
  The image handed to \<^verbatim>\<open>addImage\<close>: the encoding of the whole captured canvas, or
  of a page canvas that \<^verbatim>\<open>drawImage\<close> filled from the source rows starting at
  \<open>sy\<close>, \<open>sHeight\<close> rows high. The source rectangle is what the model keeps of a
  slice; the pixel size of the page canvas itself and the JPEG encoding are not modelled.
\<close>

datatype image_data = WholeCanvas | Slice (sy: number) (sHeight: number)

record placed_image =
  data :: image_data
  x :: number
  y :: number
  w :: number
  h :: number

text \<open>
  A jsPDF document: the finished pages and the current page. A new document has one
  empty page; \<^verbatim>\<open>addPage\<close> starts a new current page; \<^verbatim>\<open>addImage\<close> places an
  image on the current page.
\<close>

record pdf_doc =
  finished :: "placed_image list list"
  current :: "placed_image list"

definition pages :: "pdf_doc \<Rightarrow> placed_image list list" where
  "pages d = finished d @ [current d]"

definition new_jsPDF :: pdf_doc where
  "new_jsPDF = \<lparr>finished = [], current = []\<rparr>"

section \<open>Effects\<close>

datatype node = Element | Parent

datatype property = Overflow | Height | MaxHeight

text \<open>The messages handed to \<^verbatim>\<open>onProgress\<close>, with the numbers of their templates.\<close>

datatype progress =
    PreparingContent
  | PreparingContentForPDF
  | CapturingContent
  | CreatingPDF
  | CreatedSuccessfully
  | CreatingPageOf nat int
  | CreatedWithPages int
  | CreatingPage nat
  | SavingPDF
  | GeneratedSuccessfully

text \<open>
  The effects of a run outside the PDF document, in the order they happen: progress
  reports, writes to an inline style property, the scroll reset, frame yields
  (\<^verbatim>\<open>requestAnimationFrame\<close>), timer delays in milliseconds, the waits for fonts and
  images, the call of the rasterizer, the extraction of a slice (\<^verbatim>\<open>drawImage\<close> into
  a page canvas, with source row and height), the primary save, and the steps of the
  alternate download path.
\<close>

datatype event =
    Progress progress
  | StyleWrite node property string
  | ScrollToTop
  | FrameYield
  | Delay nat
  | FontsReady
  | ImagesSettled
  | Capture
  | DrawImage number number
  | Save string
  | OutputBlob
  | CreateObjectURL
  | ClickLink string
  | RevokeObjectURL

text \<open>
  The state of page assembly: the document, the number of \<^verbatim>\<open>addImage\<close> calls made,
  and the effects so far.
\<close>

record assembly =
  doc :: pdf_doc
  calls :: nat
  log :: "event list"

definition report :: "progress \<Rightarrow> assembly \<Rightarrow> assembly" where
  "report p a = a\<lparr>log := log a @ [Progress p]\<rparr>"

definition addPage :: "assembly \<Rightarrow> assembly" where
  "addPage a = a\<lparr>doc := \<lparr>finished = finished (doc a) @ [current (doc a)], current = []\<rparr>\<rparr>"

text \<open>A step of assembly returns the new state, or the thrown value with the state reached.\<close>

definition addImage :: "env \<Rightarrow> placed_image \<Rightarrow> assembly \<Rightarrow> (thrown \<times> assembly) + assembly" where
  "addImage e img a =
     (case addImage_throws e (calls a) of
        Some t \<Rightarrow> Inl (t, a\<lparr>calls := Suc (calls a)\<rparr>)
      | None \<Rightarrow> Inr (a\<lparr>doc := (doc a)\<lparr>current := current (doc a) @ [img]\<rparr>,
                      calls := Suc (calls a)\<rparr>))"

definition save :: "env \<Rightarrow> string \<Rightarrow> assembly \<Rightarrow> (thrown \<times> assembly) + assembly" where
  "save e fileName a =
     (let a' = a\<lparr>log := log a @ [Save fileName]\<rparr>
      in case save_throws e of Some t \<Rightarrow> Inl (t, a') | None \<Rightarrow> Inr a')"

text \<open>
  The result of a run: the value returned to the caller (\<open>Inl\<close> a thrown value), the
  element as the run leaves it, the effects in order, and the document when one was
  created.
\<close>

record outcome =
  result :: "thrown + unit"
  dom :: dom_element
  effects :: "event list"
  document :: "pdf_doc option"

section \<open>Slice-based pagination (advancedGeneratePDF)\<close>

text \<open>The constants of one pagination, named as in the source.\<close>

record layout =
  margin :: number
  contentWidth :: number
  contentHeight :: number
  imgWidth :: number
  imgHeight :: number
  canvasWidth :: nat
  canvasHeight :: nat

definition advanced_layout :: "env \<Rightarrow> nat \<Rightarrow> nat \<Rightarrow> layout" where
  "advanced_layout e cw ch =
     (let margin = 10;
          contentWidth = pageWidth e - margin * 2;
          contentHeight = pageHeight e - margin * 2;
          imgWidth = contentWidth;
          imgHeight = (of_nat ch * imgWidth) / of_nat cw
      in \<lparr>margin = margin, contentWidth = contentWidth, contentHeight = contentHeight,
          imgWidth = imgWidth, imgHeight = imgHeight, canvasWidth = cw, canvasHeight = ch\<rparr>)"

definition totalPages :: "layout \<Rightarrow> int" where
  "totalPages g = \<lceil>imgHeight g / contentHeight g\<rceil>"

definition yStart :: "layout \<Rightarrow> nat \<Rightarrow> number" where
  "yStart g pageNum =
     (of_nat pageNum * contentHeight g * of_nat (canvasHeight g)) / imgHeight g"

definition yEnd :: "layout \<Rightarrow> nat \<Rightarrow> number" where
  "yEnd g pageNum =
     min (yStart g pageNum + (contentHeight g * of_nat (canvasHeight g)) / imgHeight g)
         (of_nat (canvasHeight g))"

definition sliceHeight :: "layout \<Rightarrow> nat \<Rightarrow> number" where
  "sliceHeight g pageNum = yEnd g pageNum - yStart g pageNum"

definition slice_image :: "layout \<Rightarrow> nat \<Rightarrow> placed_image" where
  "slice_image g pageNum =
     (let pageImgHeight = (sliceHeight g pageNum * imgWidth g) / of_nat (canvasWidth g)
      in \<lparr>data = Slice (yStart g pageNum) (sliceHeight g pageNum),
          x = margin g, y = margin g, w = imgWidth g, h = pageImgHeight\<rparr>)"

text \<open>The loop \<^verbatim>\<open>for (let pageNum = 0; pageNum < totalPages; pageNum++)\<close>.\<close>

function slice_loop ::
  "env \<Rightarrow> layout \<Rightarrow> int \<Rightarrow> nat \<Rightarrow> assembly \<Rightarrow> (thrown \<times> assembly) + assembly" where
  "slice_loop e g npages pageNum a =
     (if int pageNum < npages then
        (let a1 = report (CreatingPageOf (pageNum + 1) npages) a;
             a2 = (if pageNum > 0 then addPage a1 else a1);
             a3 = a2\<lparr>log := log a2 @ [DrawImage (yStart g pageNum) (sliceHeight g pageNum)]\<rparr>
         in case addImage e (slice_image g pageNum) a3 of
              Inl err \<Rightarrow> Inl err
            | Inr a4 \<Rightarrow> slice_loop e g npages (Suc pageNum) a4)
      else Inr a)"
  by pat_completeness auto
termination
  by (relation "measure (\<lambda>(e, g, npages, pageNum, a). nat (npages - int pageNum))") auto

declare slice_loop.simps [simp del]

text \<open>Steps 5a and 5b: one page when the scaled image fits, the slices otherwise.\<close>

definition advanced_paginate :: "env \<Rightarrow> layout \<Rightarrow> assembly \<Rightarrow> (thrown \<times> assembly) + assembly" where
  "advanced_paginate e g a =
     (if imgHeight g \<le> contentHeight g then
        (case addImage e \<lparr>data = WholeCanvas, x = margin g, y = margin g,
                          w = imgWidth g, h = imgHeight g\<rparr> a of
           Inl err \<Rightarrow> Inl err
         | Inr a1 \<Rightarrow> Inr (report CreatedSuccessfully a1))
      else
        (case slice_loop e g (totalPages g) 0 a of
           Inl err \<Rightarrow> Inl err
         | Inr a1 \<Rightarrow> Inr (report (CreatedWithPages (totalPages g)) a1)))"

definition no_text :: "dom_element \<Rightarrow> bool" where
  "no_text element = (case textContent element of None \<Rightarrow> True | Some s \<Rightarrow> trim s = [])"

record original_styles =
  orig_overflow :: string
  orig_height :: string
  orig_maxHeight :: string
  orig_parentOverflow :: string
  orig_parentHeight :: string

text \<open>
  The message of the \<^verbatim>\<open>TypeError\<close> raised by reading \<^verbatim>\<open>parent.style\<close> when
  \<^verbatim>\<open>parent\<close> is \<^verbatim>\<open>null\<close>; its wording is the engine's.
\<close>

definition null_parent_message :: string where
  "null_parent_message = ''Cannot read properties of null (reading style)''"

definition failed :: "thrown \<Rightarrow> dom_element \<Rightarrow> event list \<Rightarrow> pdf_doc option \<Rightarrow> outcome" where
  "failed t el evs d = \<lparr>result = Inl t, dom = el, effects = evs, document = d\<rparr>"

text \<open>
  Steps 4 to 6 of \<^verbatim>\<open>advancedGeneratePDF\<close>, after the capture has been validated:
  the element is as the restoration left it and \<open>evs\<close> are the effects so far.
\<close>

definition advanced_assemble ::
  "env \<Rightarrow> dom_element \<Rightarrow> event list \<Rightarrow> nat \<Rightarrow> nat \<Rightarrow> string \<Rightarrow> outcome" where
  "advanced_assemble e restored evs cw ch fileName =
     (let a0 = \<lparr>doc = new_jsPDF, calls = 0, log = evs @ [Progress CreatingPDF]\<rparr>;
          g = advanced_layout e cw ch
      in case advanced_paginate e g a0 of
           Inl (t, a) \<Rightarrow> failed t restored (log a) (Some (doc a))
         | Inr a1 \<Rightarrow>
            (case save e fileName a1 of
               Inl (t, a) \<Rightarrow> failed t restored (log a) (Some (doc a))
             | Inr a2 \<Rightarrow>
                \<lparr>result = Inr (), dom = restored, effects = log a2,
                 document = Some (doc a2)\<rparr>))"

definition advancedGeneratePDF :: "env \<Rightarrow> dom_element \<Rightarrow> string \<Rightarrow> outcome" where
  "advancedGeneratePDF e element fileName =
     (let log0 = [Progress PreparingContent] in
      if no_text element then failed (Error ''Element has no content'') element log0 None
      else
        case parentElement element of
          None \<Rightarrow> failed (Error null_parent_message) element log0 None
        | Some parent \<Rightarrow>
           (let originalStyles =
                  \<lparr>orig_overflow = overflow (style element),
                   orig_height = height (style element),
                   orig_maxHeight = maxHeight (style element),
                   orig_parentOverflow = overflow parent,
                   orig_parentHeight = height parent\<rparr>;
                expanded = element
                  \<lparr>style := (style element)
                     \<lparr>overflow := ''visible'', height := ''auto'', maxHeight := ''none''\<rparr>,
                   parentElement := Some (parent\<lparr>overflow := ''visible'', height := ''auto''\<rparr>)\<rparr>;
                log1 = log0 @
                  [StyleWrite Element Overflow ''visible'', StyleWrite Element Height ''auto'',
                   StyleWrite Element MaxHeight ''none'', StyleWrite Parent Overflow ''visible'',
                   StyleWrite Parent Height ''auto'',
                   FrameYield, Delay 200, FrameYield, Delay 200,
                   Progress CapturingContent, Capture]
            in case html2canvas e of
                 Rejects t \<Rightarrow> failed t expanded log1 None
               | Canvas cw ch \<Rightarrow>
                  (let restored = expanded
                         \<lparr>style := (style expanded)
                            \<lparr>overflow := orig_overflow originalStyles,
                             height := orig_height originalStyles,
                             maxHeight := orig_maxHeight originalStyles\<rparr>,
                          parentElement := Some
                            ((parent\<lparr>overflow := ''visible'', height := ''auto''\<rparr>)
                               \<lparr>overflow := orig_parentOverflow originalStyles,
                                height := orig_parentHeight originalStyles\<rparr>)\<rparr>;
                       log2 = log1 @
                         [StyleWrite Element Overflow (orig_overflow originalStyles),
                          StyleWrite Element Height (orig_height originalStyles),
                          StyleWrite Element MaxHeight (orig_maxHeight originalStyles),
                          StyleWrite Parent Overflow (orig_parentOverflow originalStyles),
                          StyleWrite Parent Height (orig_parentHeight originalStyles)]
                   in if cw = 0 \<or> ch = 0 then
                        failed (Error ''Failed to capture content - canvas is empty'')
                          restored log2 None
                      else advanced_assemble e restored log2 cw ch fileName)))"


text \<open>The effects of one iteration of the slice loop.\<close>

definition slice_log :: "layout \<Rightarrow> int \<Rightarrow> nat \<Rightarrow> event list" where
  "slice_log g n k =
     [Progress (CreatingPageOf (k + 1) n), DrawImage (yStart g k) (sliceHeight g k)]"

section \<open>simpleGeneratePDF\<close>

definition simple_layout :: "env \<Rightarrow> nat \<Rightarrow> nat \<Rightarrow> layout" where
  "simple_layout e cw ch =
     (let margin = 15;
          contentWidth = pageWidth e - margin * 2;
          contentHeight = pageHeight e - margin * 2;
          imgAspectRatio = of_nat cw / of_nat ch;
          imgWidth = contentWidth;
          imgHeight = imgWidth / imgAspectRatio
      in \<lparr>margin = margin, contentWidth = contentWidth, contentHeight = contentHeight,
          imgWidth = imgWidth, imgHeight = imgHeight, canvasWidth = cw, canvasHeight = ch\<rparr>)"

definition sourceY :: "layout \<Rightarrow> nat \<Rightarrow> number" where
  "sourceY g page = (of_nat page * contentHeight g * of_nat (canvasHeight g)) / imgHeight g"

definition sourceHeight :: "layout \<Rightarrow> nat \<Rightarrow> number" where
  "sourceHeight g page =
     min ((contentHeight g * of_nat (canvasHeight g)) / imgHeight g)
         (of_nat (canvasHeight g) - sourceY g page)"

definition simple_image :: "layout \<Rightarrow> nat \<Rightarrow> placed_image" where
  "simple_image g page =
     (let actualPageHeight =
            min (contentHeight g) ((sourceHeight g page * imgWidth g) / of_nat (canvasWidth g))
      in \<lparr>data = Slice (sourceY g page) (sourceHeight g page),
          x = margin g, y = margin g, w = imgWidth g, h = actualPageHeight\<rparr>)"

function simple_loop ::
  "env \<Rightarrow> layout \<Rightarrow> int \<Rightarrow> nat \<Rightarrow> assembly \<Rightarrow> (thrown \<times> assembly) + assembly" where
  "simple_loop e g npages page a =
     (if int page < npages then
        (let a1 = (if page > 0 then addPage a else a);
             a2 = a1\<lparr>log := log a1 @ [DrawImage (sourceY g page) (sourceHeight g page)]\<rparr>
         in case addImage e (simple_image g page) a2 of
              Inl err \<Rightarrow> Inl err
            | Inr a3 \<Rightarrow> simple_loop e g npages (Suc page) a3)
      else Inr a)"
  by pat_completeness auto
termination
  by (relation "measure (\<lambda>(e, g, npages, page, a). nat (npages - int page))") auto

declare simple_loop.simps [simp del]

definition simple_paginate :: "env \<Rightarrow> layout \<Rightarrow> assembly \<Rightarrow> (thrown \<times> assembly) + assembly" where
  "simple_paginate e g a =
     (if imgHeight g \<le> contentHeight g then
        addImage e \<lparr>data = WholeCanvas, x = margin g, y = margin g,
                     w = imgWidth g, h = imgHeight g\<rparr> a
      else simple_loop e g (totalPages g) 0 a)"

text \<open>The rest of \<^verbatim>\<open>simpleGeneratePDF\<close> once the capture has been validated.\<close>

definition simple_assemble ::
  "env \<Rightarrow> dom_element \<Rightarrow> event list \<Rightarrow> nat \<Rightarrow> nat \<Rightarrow> string \<Rightarrow> outcome" where
  "simple_assemble e restored evs cw ch fileName =
     (let a0 = \<lparr>doc = new_jsPDF, calls = 0, log = evs\<rparr>;
          g = simple_layout e cw ch
      in case simple_paginate e g a0 of
           Inl (t, a) \<Rightarrow> failed t restored (log a) (Some (doc a))
         | Inr a1 \<Rightarrow>
            (case save e fileName a1 of
               Inl (t, a) \<Rightarrow> failed t restored (log a) (Some (doc a))
             | Inr a2 \<Rightarrow>
                \<lparr>result = Inr (), dom = restored, effects = log a2,
                 document = Some (doc a2)\<rparr>))"

definition simpleGeneratePDF :: "env \<Rightarrow> dom_element \<Rightarrow> string \<Rightarrow> outcome" where
  "simpleGeneratePDF e element fileName =
     (if no_text element then failed (Error ''Element has no content'') element [] None
      else
        (let originalOverflow = overflow (style element);
             originalHeight = height (style element);
             originalMaxHeight = maxHeight (style element);
             expanded = element
               \<lparr>style := (style element)
                  \<lparr>overflow := ''visible'', height := ''auto'', maxHeight := ''none''\<rparr>\<rparr>;
             log1 =
               [StyleWrite Element Overflow ''visible'', StyleWrite Element Height ''auto'',
                StyleWrite Element MaxHeight ''none'', FrameYield, Delay 100, Capture]
         in case html2canvas e of
              Rejects t \<Rightarrow> failed t expanded log1 None
            | Canvas cw ch \<Rightarrow>
               (let restored = expanded
                      \<lparr>style := (style expanded)
                         \<lparr>overflow := originalOverflow, height := originalHeight,
                          maxHeight := originalMaxHeight\<rparr>\<rparr>;
                    log2 = log1 @
                      [StyleWrite Element Overflow originalOverflow,
                       StyleWrite Element Height originalHeight,
                       StyleWrite Element MaxHeight originalMaxHeight]
                in if cw = 0 \<or> ch = 0 then failed (Error ''Canvas is empty'') restored log2 None
                   else simple_assemble e restored log2 cw ch fileName)))"

section \<open>Overlap-based pagination (generatePDF)\<close>

text \<open>
  \<^verbatim>\<open>prepareElementForCapture\<close>: the scroll reset, two frame yields, the wait for
  fonts when the platform has it, the wait for every image that is not complete, and the
  settle delay. The wait for images never ends when a pending image fires neither
  \<^verbatim>\<open>load\<close> nor \<^verbatim>\<open>error\<close>: the result is then \<open>None\<close>.
\<close>

definition settles :: "img \<Rightarrow> bool" where
  "settles i = (case i of Complete \<Rightarrow> True | Pending fires \<Rightarrow> fires)"

definition prepareElementForCapture ::
  "env \<Rightarrow> dom_element \<Rightarrow> event list \<Rightarrow> (dom_element \<times> event list) option" where
  "prepareElementForCapture e element evs =
     (let el1 = element\<lparr>scrollTop := 0\<rparr>;
          evs1 = evs @ [ScrollToTop, FrameYield, FrameYield];
          evs2 = (if fonts_ready e then evs1 @ [FontsReady] else evs1)
      in if length (images element) > 0 then
           (if list_all settles (images element)
            then Some (el1, evs2 @ [ImagesSettled, Delay 500])
            else None)
         else Some (el1, evs2 @ [Delay 500]))"

text \<open>\<^verbatim>\<open>debugElement\<close>, with the two flags of its result that the caller reads.\<close>

record debug_info =
  isVisible :: bool
  hasContent :: bool

definition debugElement :: "dom_element \<Rightarrow> debug_info" where
  "debugElement element =
     \<lparr>isVisible = offsetParent element,
      hasContent = ((case textContent element of None \<Rightarrow> 0 | Some s \<Rightarrow> length s) > 0)\<rparr>"

text \<open>
  The layout of \<^verbatim>\<open>generatePDF\<close>; the fields \<open>contentWidth\<close> and \<open>contentHeight\<close>
  hold the source's \<^verbatim>\<open>availableWidth\<close> and \<^verbatim>\<open>availableHeight\<close>.
\<close>

definition generate_layout :: "env \<Rightarrow> nat \<Rightarrow> nat \<Rightarrow> layout" where
  "generate_layout e cw ch =
     (let margin = 15;
          availableWidth = pageWidth e - margin * 2;
          availableHeight = pageHeight e - margin * 2;
          imgWidth = availableWidth;
          imgHeight = (of_nat ch * imgWidth) / of_nat cw
      in \<lparr>margin = margin, contentWidth = availableWidth, contentHeight = availableHeight,
          imgWidth = imgWidth, imgHeight = imgHeight, canvasWidth = cw, canvasHeight = ch\<rparr>)"

text \<open>
  The loop \<^verbatim>\<open>while (heightLeft > 0)\<close>. It does not end when the available height is
  not positive; \<open>None\<close> is a loop that never returns.
\<close>

partial_function (option) overlap_loop ::
  "env \<Rightarrow> layout \<Rightarrow> number \<Rightarrow> nat \<Rightarrow> assembly \<Rightarrow> ((thrown \<times> assembly) + assembly) option" where
  "overlap_loop e g heightLeft pageNumber a =
     (if heightLeft > 0 then
        (let pageNumber' = pageNumber + 1;
             a1 = report (CreatingPage pageNumber') a;
             a2 = addPage a1;
             yPosition = - (imgHeight g - heightLeft) + margin g
         in case addImage e \<lparr>data = WholeCanvas, x = margin g, y = yPosition,
                              w = imgWidth g, h = imgHeight g\<rparr> a2 of
              Inl err \<Rightarrow> Some (Inl err)
            | Inr a3 \<Rightarrow> overlap_loop e g (heightLeft - contentHeight g) pageNumber' a3)
      else Some (Inr a))"

definition overlap_paginate ::
  "env \<Rightarrow> layout \<Rightarrow> assembly \<Rightarrow> ((thrown \<times> assembly) + assembly) option" where
  "overlap_paginate e g a =
     (let yPosition = margin g;
          heightLeft = imgHeight g;
          pageNumber = 1
      in case addImage e \<lparr>data = WholeCanvas, x = margin g, y = yPosition,
                           w = imgWidth g, h = imgHeight g\<rparr> a of
           Inl err \<Rightarrow> Some (Inl err)
         | Inr a1 \<Rightarrow> overlap_loop e g (heightLeft - contentHeight g) pageNumber a1)"

text \<open>Step 8: the primary save, and the alternate download path when it throws.\<close>

definition save_with_fallback ::
  "env \<Rightarrow> string \<Rightarrow> assembly \<Rightarrow> (thrown \<times> assembly) + assembly" where
  "save_with_fallback e fileName a =
     (case save e fileName a of
        Inr a1 \<Rightarrow> Inr a1
      | Inl (saveError, a1) \<Rightarrow>
         (let a2 = a1\<lparr>log := log a1 @ [OutputBlob]\<rparr>
          in case output_blob_throws e of
               Some t \<Rightarrow> Inl (t, a2)
             | None \<Rightarrow>
                Inr (a2\<lparr>log := log a2 @ [CreateObjectURL, ClickLink fileName, RevokeObjectURL]\<rparr>)))"

text \<open>Steps 7 and 8 of \<^verbatim>\<open>generatePDF\<close>, once canvas and image data are validated.\<close>

definition generate_assemble ::
  "env \<Rightarrow> dom_element \<Rightarrow> event list \<Rightarrow> nat \<Rightarrow> nat \<Rightarrow> string \<Rightarrow> outcome option" where
  "generate_assemble e el1 evs cw ch fileName =
     (let a0 = \<lparr>doc = new_jsPDF, calls = 0, log = evs @ [Progress CreatingPDF]\<rparr>;
          g = generate_layout e cw ch
      in case overlap_paginate e g a0 of
           None \<Rightarrow> None
         | Some (Inl (t, a)) \<Rightarrow> Some (failed t el1 (log a) (Some (doc a)))
         | Some (Inr a1) \<Rightarrow>
            (case save_with_fallback e fileName (report SavingPDF a1) of
               Inl (t, a) \<Rightarrow> Some (failed t el1 (log a) (Some (doc a)))
             | Inr a2 \<Rightarrow>
                Some \<lparr>result = Inr (), dom = el1,
                      effects = log (report GeneratedSuccessfully a2),
                      document = Some (doc a2)\<rparr>))"

text \<open>The body of the \<^verbatim>\<open>try\<close> block of \<^verbatim>\<open>generatePDF\<close>.\<close>

definition generatePDF_try :: "env \<Rightarrow> dom_element \<Rightarrow> string \<Rightarrow> outcome option" where
  "generatePDF_try e element fileName =
     (case prepareElementForCapture e element [Progress PreparingContentForPDF] of
        None \<Rightarrow> None
      | Some (el1, log1) \<Rightarrow>
         (let debugInfo = debugElement el1 in
          if \<not> hasContent debugInfo then
            Some (failed (Error ''The element appears to have no content to capture.'')
                    el1 log1 None)
          else if \<not> isVisible debugInfo then
            Some (failed (Error ''The element is not visible and cannot be captured.'')
                    el1 log1 None)
          else
            (let log2 = log1 @ [Progress CapturingContent, Capture] in
             case html2canvas e of
               Rejects t \<Rightarrow> Some (failed t el1 log2 None)
             | Canvas cw ch \<Rightarrow>
                if cw = 0 \<or> ch = 0 then
                  Some (failed (Error (''Failed to capture content - canvas is empty. '' @
                          ''The element might not be visible or rendered properly.''))
                          el1 log2 None)
                else
                  (let imgData = toDataURL e in
                   if imgData = ''data:,'' \<or> length imgData < 100 then
                     Some (failed (Error (''Failed to generate image from content. '' @
                             ''The content might be empty or not properly rendered.''))
                             el1 log2 None)
                   else generate_assemble e el1 log2 cw ch fileName))))"

text \<open>The \<^verbatim>\<open>catch\<close> block of \<^verbatim>\<open>generatePDF\<close>: what it throws for a caught value.\<close>

definition rethrown :: "thrown \<Rightarrow> thrown" where
  "rethrown t =
     (case t of
        Error message \<Rightarrow>
          if str_includes message ''canvas'' then
            Error (''Canvas generation failed: '' @ message @
                   ''. Try refreshing the page and ensure the content is fully loaded.'')
          else if str_includes message ''image'' then
            Error (''Image processing failed: '' @ message @
                   ''. Check if there are any problematic images in the content.'')
          else Error message
      | NonError \<Rightarrow>
          Error ''An unexpected error occurred during PDF generation. Please try again.'')"

definition generatePDF :: "env \<Rightarrow> dom_element \<Rightarrow> string \<Rightarrow> outcome option" where
  "generatePDF e element fileName =
     (case generatePDF_try e element fileName of
        None \<Rightarrow> None
      | Some out \<Rightarrow>
         (case result out of
            Inl t \<Rightarrow> Some (out\<lparr>result := Inl (rethrown t)\<rparr>)
          | Inr u \<Rightarrow> Some out))"

section \<open>Overlap-based placement as the specification states it\<close>



section \<open>Concrete inputs\<close>

text \<open>
  An element with text, inline styles and a parent, and an environment in which no
  collaborator throws, used to instantiate the theorems below.
\<close>

definition example_parent :: css_style where
  "example_parent = \<lparr>overflow = ''hidden'', height = [], maxHeight = []\<rparr>"

definition example_element :: dom_element where
  "example_element =
     \<lparr>textContent = Some [72, 105],
      style = \<lparr>overflow = ''auto'', height = ''400px'', maxHeight = []\<rparr>,
      parentElement = Some example_parent,
      scrollTop = 120, offsetParent = True, images = []\<rparr>"

definition example_env :: "number \<Rightarrow> number \<Rightarrow> capture_result \<Rightarrow> env" where
  "example_env pw ph cap =
     \<lparr>pageWidth = pw, pageHeight = ph, html2canvas = cap, toDataURL = replicate 100 CHR ''A'',
      addImage_throws = (\<lambda>k. None), save_throws = None, output_blob_throws = None,
      fonts_ready = True\<rparr>"

text \<open>The placement of the whole captured image on a single page.\<close>

definition whole_image :: "layout \<Rightarrow> placed_image" where
  "whole_image g = \<lparr>data = WholeCanvas, x = margin g, y = margin g, w = imgWidth g, h = imgHeight g\<rparr>"


text \<open>A second element and an environment in which the primary save throws.\<close>

definition other_element :: dom_element where
  "other_element =
     \<lparr>textContent = Some [80, 68, 70, 32, 33],
      style = \<lparr>overflow = ''scroll'', height = [], maxHeight = ''50vh''\<rparr>,
      parentElement = Some \<lparr>overflow = [], height = ''100%'', maxHeight = []\<rparr>,
      scrollTop = 0, offsetParent = True, images = [Complete, Pending True]\<rparr>"

definition failing_save_env :: "number \<Rightarrow> number \<Rightarrow> capture_result \<Rightarrow> env" where
  "failing_save_env pw ph cap =
     \<lparr>pageWidth = pw, pageHeight = ph, html2canvas = cap, toDataURL = replicate 200 CHR ''B'',
      addImage_throws = (\<lambda>k. None), save_throws = Some (Error ''save failed''),
      output_blob_throws = None, fonts_ready = False\<rparr>"

text \<open>The effects of \<^verbatim>\<open>generatePDF\<close> up to the end of its preparation step.\<close>

definition prepare_effects :: "env \<Rightarrow> dom_element \<Rightarrow> event list" where
  "prepare_effects e element =
     [Progress PreparingContentForPDF, ScrollToTop, FrameYield, FrameYield]
     @ (if fonts_ready e then [FontsReady] else [])
     @ (if images element = [] then [] else [ImagesSettled])
     @ [Delay 500]"

text \<open>Elements with empty text, with whitespace only, and without a parent.\<close>

definition blank_element :: dom_element where
  "blank_element = example_element\<lparr>textContent := Some []\<rparr>"

definition whitespace_element :: dom_element where
  "whitespace_element = example_element\<lparr>textContent := Some [32, 10, 9, 160]\<rparr>"


section \<open>Geometry of the slices\<close>

lemma step_pos:
  assumes "0 < contentHeight g" "contentHeight g < imgHeight g" "0 < canvasHeight g"
  shows "0 < (contentHeight g * of_nat (canvasHeight g)) / imgHeight g"
  using assms by simp


lemma yStart_less_canvas:
  assumes "0 < contentHeight g" "contentHeight g < imgHeight g" "0 < canvasHeight g"
    and "int p < totalPages g"
  shows "yStart g p < of_nat (canvasHeight g)"
proof -
  have "of_int (int p) < imgHeight g / contentHeight g"
    using assms(4) by (simp only: totalPages_def less_ceiling_iff)
  then have "of_nat p * contentHeight g < imgHeight g"
    using assms(1) by (simp add: pos_less_divide_eq)
  then have "of_nat p * contentHeight g * of_nat (canvasHeight g) < imgHeight g * of_nat (canvasHeight g)"
    using assms(3) by simp
  then show ?thesis
    using assms(1,2) by (simp add: yStart_def pos_divide_less_eq mult.commute)
qed




lemma yEnd_le_canvas: "yEnd g p \<le> of_nat (canvasHeight g)"
  by (simp add: yEnd_def)

lemma yStart_nonneg:
  assumes "0 < contentHeight g" "contentHeight g < imgHeight g"
  shows "0 \<le> yStart g p"
  using assms by (simp add: yStart_def)

lemma yStart_less_yEnd:
  assumes "0 < contentHeight g" "contentHeight g < imgHeight g" "0 < canvasHeight g"
    and "int p < totalPages g"
  shows "yStart g p < yEnd g p"
  using yStart_less_canvas [OF assms] step_pos [OF assms(1-3)]
  by (simp add: yEnd_def min_def)

lemma totalPages_ge_2:
  assumes "0 < contentHeight g" "contentHeight g < imgHeight g"
  shows "2 \<le> totalPages g"
proof -
  have "1 < imgHeight g / contentHeight g" using assms by simp
  then have "1 < totalPages g" unfolding totalPages_def by (simp add: less_ceiling_iff)
  then show ?thesis by simp
qed


lemma slice_loop_done: "\<not> int p < n \<Longrightarrow> slice_loop e g n p a = Inr a"
  by (simp add: slice_loop.simps)

lemma slice_loop_step:
  assumes "addImage_throws e (calls a) = None" and "int p < n" and "0 < p"
  shows "slice_loop e g n p a =
    slice_loop e g n (Suc p)
      (a\<lparr>doc := \<lparr>finished = finished (doc a) @ [current (doc a)], current = [slice_image g p]\<rparr>,
         calls := Suc (calls a), log := log a @ slice_log g n p\<rparr>)"
  using assms
  by (cases a, subst slice_loop.simps)
     (simp add: addImage_def addPage_def report_def slice_log_def)

lemma slice_loop_first:
  assumes "addImage_throws e (calls a) = None" and "0 < n"
  shows "slice_loop e g n 0 a =
    slice_loop e g n (Suc 0)
      (a\<lparr>doc := (doc a)\<lparr>current := current (doc a) @ [slice_image g 0]\<rparr>,
         calls := Suc (calls a), log := log a @ slice_log g n 0\<rparr>)"
  using assms
  by (cases a, subst slice_loop.simps)
     (simp add: addImage_def addPage_def report_def slice_log_def)

lemma slice_loop_rest:
  assumes "\<forall>k. addImage_throws e k = None" and "0 < p" and "int p \<le> n"
  shows "\<exists>a'. slice_loop e g n p a = Inr a'
           \<and> pages (doc a') = pages (doc a) @ map (\<lambda>k. [slice_image g k]) [p..<nat n]
           \<and> log a' = log a @ concat (map (slice_log g n) [p..<nat n])"
  using assms(2,3)
proof (induction "nat n - p" arbitrary: p a)
  case 0
  then have "\<not> int p < n" and "[p..<nat n] = []" by auto
  then show ?case by (simp add: slice_loop_done)
next
  case (Suc m)
  then have lt: "int p < n" and upt: "[p..<nat n] = p # [Suc p..<nat n]"
    by (auto simp: upt_conv_Cons)
  have none: "addImage_throws e (calls a) = None" using assms(1) by simp
  let ?a = "a\<lparr>doc := \<lparr>finished = finished (doc a) @ [current (doc a)], current = [slice_image g p]\<rparr>,
       calls := Suc (calls a), log := log a @ slice_log g n p\<rparr>"
  have "m = nat n - Suc p" "0 < Suc p" "int (Suc p) \<le> n" using Suc.hyps(2) lt by auto
  from Suc.hyps(1) [OF this, of ?a] obtain a' where
    a': "slice_loop e g n (Suc p) ?a = Inr a'"
      "pages (doc a') = pages (doc ?a) @ map (\<lambda>k. [slice_image g k]) [Suc p..<nat n]"
      "log a' = log ?a @ concat (map (slice_log g n) [Suc p..<nat n])"
    by blast
  show ?case
    using a' by (simp add: slice_loop_step [OF none lt Suc.prems(1)] upt pages_def)
qed

lemma slice_loop_all:
  assumes "\<forall>k. addImage_throws e k = None" and "0 < n"
  shows "\<exists>a'. slice_loop e g n 0 \<lparr>doc = new_jsPDF, calls = 0, log = evs\<rparr> = Inr a'
           \<and> pages (doc a') = map (\<lambda>k. [slice_image g k]) [0..<nat n]
           \<and> log a' = evs @ concat (map (slice_log g n) [0..<nat n])"
proof -
  let ?a0 = "\<lparr>doc = new_jsPDF, calls = 0, log = evs\<rparr>"
  let ?a1 = "?a0\<lparr>doc := (doc ?a0)\<lparr>current := current (doc ?a0) @ [slice_image g 0]\<rparr>,
       calls := Suc (calls ?a0), log := log ?a0 @ slice_log g n 0\<rparr>"
  have none: "addImage_throws e (calls ?a0) = None" using assms(1) by simp
  have upt: "[0..<nat n] = 0 # [Suc 0..<nat n]" using assms(2) by (simp add: upt_conv_Cons)
  have "0 < Suc 0" "int (Suc 0) \<le> n" using assms(2) by auto
  from slice_loop_rest [OF assms(1) this, of g ?a1] obtain a' where
    a': "slice_loop e g n (Suc 0) ?a1 = Inr a'"
      "pages (doc a') = pages (doc ?a1) @ map (\<lambda>k. [slice_image g k]) [Suc 0..<nat n]"
      "log a' = log ?a1 @ concat (map (slice_log g n) [Suc 0..<nat n])"
    by blast
  show ?thesis
    using a' unfolding slice_loop_first [OF none assms(2)] upt
    by (simp add: pages_def new_jsPDF_def)
qed








lemma advanced_layout_fields:
  "margin (advanced_layout e cw ch) = 10"
  "contentWidth (advanced_layout e cw ch) = pageWidth e - 20"
  "contentHeight (advanced_layout e cw ch) = pageHeight e - 20"
  "imgWidth (advanced_layout e cw ch) = pageWidth e - 20"
  "imgHeight (advanced_layout e cw ch) = of_nat ch * (pageWidth e - 20) / of_nat cw"
  "canvasWidth (advanced_layout e cw ch) = cw"
  "canvasHeight (advanced_layout e cw ch) = ch"
  by (simp_all add: advanced_layout_def Let_def)

lemma advanced_assemble_multi:
  assumes "\<forall>k. addImage_throws e k = None"
    and "0 < contentHeight (advanced_layout e cw ch)"
    and "contentHeight (advanced_layout e cw ch) < imgHeight (advanced_layout e cw ch)"
  shows "\<exists>d. document (advanced_assemble e el evs cw ch f) = Some d
           \<and> pages d = map (\<lambda>p. [slice_image (advanced_layout e cw ch) p])
                          [0..<nat (totalPages (advanced_layout e cw ch))]"
proof -
  let ?g = "advanced_layout e cw ch"
  have "0 < totalPages ?g" using totalPages_ge_2 [OF assms(2,3)] by simp
  from slice_loop_all [OF assms(1) this, of ?g "evs @ [Progress CreatingPDF]"]
  obtain a' where a': "slice_loop e ?g (totalPages ?g) 0
        \<lparr>doc = new_jsPDF, calls = 0, log = evs @ [Progress CreatingPDF]\<rparr> = Inr a'"
    "pages (doc a') = map (\<lambda>k. [slice_image ?g k]) [0..<nat (totalPages ?g)]"
    by blast
  show ?thesis
    using a' assms(3)
    by (simp add: advanced_assemble_def advanced_paginate_def Let_def save_def report_def
        failed_def split: option.splits)
qed


lemma ceiling_rat_numeral:
  "\<lceil>numeral a / numeral b :: rat\<rceil> = - (- numeral a div numeral b)"
  using ceiling_divide_eq_div [of "numeral a" "numeral b", where ?'a = rat] by simp

section \<open>Runs of advancedGeneratePDF\<close>

lemma pages_inject: "pages d = pages (d' :: pdf_doc) \<Longrightarrow> d = d'"
  by (cases d, cases d') (simp add: pages_def)

lemma advanced_assemble_single:
  assumes "addImage_throws e 0 = None"
    and "imgHeight (advanced_layout e cw ch) \<le> contentHeight (advanced_layout e cw ch)"
  shows "document (advanced_assemble e el evs cw ch f)
           = Some \<lparr>finished = [], current = [whole_image (advanced_layout e cw ch)]\<rparr>"
    and "effects (advanced_assemble e el evs cw ch f)
           = evs @ [Progress CreatingPDF, Progress CreatedSuccessfully, Save f]"
  using assms
  by (simp_all add: advanced_assemble_def advanced_paginate_def Let_def addImage_def save_def
      report_def failed_def new_jsPDF_def whole_image_def split: option.splits)

lemma advanced_assemble_pages:
  assumes "\<forall>k. addImage_throws e k = None"
    and "0 < contentHeight (advanced_layout e cw ch)"
  shows "\<exists>d. document (advanced_assemble e el evs cw ch f) = Some d
           \<and> pages d =
               (if imgHeight (advanced_layout e cw ch) \<le> contentHeight (advanced_layout e cw ch)
                then [[whole_image (advanced_layout e cw ch)]]
                else map (\<lambda>p. [slice_image (advanced_layout e cw ch) p])
                       [0..<nat (totalPages (advanced_layout e cw ch))])"
proof (cases "imgHeight (advanced_layout e cw ch) \<le> contentHeight (advanced_layout e cw ch)")
  case True
  have "addImage_throws e 0 = None" using assms(1) by simp
  from advanced_assemble_single(1) [OF this True] show ?thesis
    using True by (simp add: pages_def)
next
  case False
  then have "contentHeight (advanced_layout e cw ch) < imgHeight (advanced_layout e cw ch)"
    by simp
  from advanced_assemble_multi [OF assms(1,2) this] show ?thesis
    using False by simp
qed

lemma totalPages_single:
  assumes "0 < imgHeight g" "imgHeight g \<le> contentHeight g"
  shows "totalPages g = 1"
  unfolding totalPages_def
  by (rule ceiling_unique) (use assms in \<open>simp_all add: pos_divide_le_eq\<close>)

lemma advanced_run_captured:
  assumes "\<not> no_text element" and "parentElement element = Some parent"
    and "html2canvas e = Canvas cw ch" and "0 < cw" and "0 < ch"
  shows "advancedGeneratePDF e element fileName =
      advanced_assemble e (element\<lparr>parentElement := Some parent\<rparr>)
        ([Progress PreparingContent,
          StyleWrite Element Overflow ''visible'', StyleWrite Element Height ''auto'',
          StyleWrite Element MaxHeight ''none'', StyleWrite Parent Overflow ''visible'',
          StyleWrite Parent Height ''auto'', FrameYield, Delay 200, FrameYield, Delay 200,
          Progress CapturingContent, Capture,
          StyleWrite Element Overflow (overflow (style element)),
          StyleWrite Element Height (height (style element)),
          StyleWrite Element MaxHeight (maxHeight (style element)),
          StyleWrite Parent Overflow (overflow parent),
          StyleWrite Parent Height (height parent)]) cw ch fileName"
  using assms by (simp add: advancedGeneratePDF_def Let_def)




lemma advanced_assemble_dom: "dom (advanced_assemble e el evs cw ch f) = el"
  by (simp add: advanced_assemble_def Let_def failed_def split: sum.splits prod.splits)

lemma advanced_layout_cong:
  "pageWidth e1 = pageWidth e2 \<Longrightarrow> pageHeight e1 = pageHeight e2 \<Longrightarrow>
     advanced_layout e1 cw ch = advanced_layout e2 cw ch"
  by (simp add: advanced_layout_def)

lemma same_parent: "parentElement element = Some parent \<Longrightarrow> element\<lparr>parentElement := Some parent\<rparr> = element"
  by (cases element) simp

lemma advanced_run_restored:
  assumes "\<not> no_text element" and "parentElement element = Some parent"
    and "html2canvas e = Canvas cw ch" and "0 < cw" and "0 < ch"
  shows "advancedGeneratePDF e element fileName =
      advanced_assemble e element
        ([Progress PreparingContent,
          StyleWrite Element Overflow ''visible'', StyleWrite Element Height ''auto'',
          StyleWrite Element MaxHeight ''none'', StyleWrite Parent Overflow ''visible'',
          StyleWrite Parent Height ''auto'', FrameYield, Delay 200, FrameYield, Delay 200,
          Progress CapturingContent, Capture,
          StyleWrite Element Overflow (overflow (style element)),
          StyleWrite Element Height (height (style element)),
          StyleWrite Element MaxHeight (maxHeight (style element)),
          StyleWrite Parent Overflow (overflow parent),
          StyleWrite Parent Height (height parent)]) cw ch fileName"
  using advanced_run_captured [OF assms] same_parent [OF assms(2)] by simp

lemma advanced_run_empty_canvas:
  assumes "\<not> no_text element" and "parentElement element = Some parent"
    and "html2canvas e = Canvas cw ch" and "cw = 0 \<or> ch = 0"
  shows "advancedGeneratePDF e element fileName =
      \<lparr>result = Inl (Error ''Failed to capture content - canvas is empty''),
       dom = element,
       effects =
         [Progress PreparingContent,
          StyleWrite Element Overflow ''visible'', StyleWrite Element Height ''auto'',
          StyleWrite Element MaxHeight ''none'', StyleWrite Parent Overflow ''visible'',
          StyleWrite Parent Height ''auto'', FrameYield, Delay 200, FrameYield, Delay 200,
          Progress CapturingContent, Capture,
          StyleWrite Element Overflow (overflow (style element)),
          StyleWrite Element Height (height (style element)),
          StyleWrite Element MaxHeight (maxHeight (style element)),
          StyleWrite Parent Overflow (overflow parent),
          StyleWrite Parent Height (height parent)],
       document = None\<rparr>"
  using assms same_parent [OF assms(2)]
  by (auto simp add: advancedGeneratePDF_def Let_def failed_def)

lemma advanced_run_rejected:
  assumes "\<not> no_text element" and "parentElement element = Some parent"
    and "html2canvas e = Rejects t"
  shows "advancedGeneratePDF e element fileName =
      \<lparr>result = Inl t,
       dom = element
         \<lparr>style := (style element)
            \<lparr>overflow := ''visible'', height := ''auto'', maxHeight := ''none''\<rparr>,
          parentElement := Some (parent\<lparr>overflow := ''visible'', height := ''auto''\<rparr>)\<rparr>,
       effects =
         [Progress PreparingContent,
          StyleWrite Element Overflow ''visible'', StyleWrite Element Height ''auto'',
          StyleWrite Element MaxHeight ''none'', StyleWrite Parent Overflow ''visible'',
          StyleWrite Parent Height ''auto'', FrameYield, Delay 200, FrameYield, Delay 200,
          Progress CapturingContent, Capture],
       document = None\<rparr>"
  using assms by (simp add: advancedGeneratePDF_def Let_def failed_def)

lemma same_style: "element\<lparr>style := style element\<rparr> = (element :: dom_element)"
  by (cases element) simp

lemma simple_run_restored:
  assumes "\<not> no_text element"
    and "html2canvas e = Canvas cw ch" and "0 < cw" and "0 < ch"
  shows "simpleGeneratePDF e element fileName =
      simple_assemble e element
        [StyleWrite Element Overflow ''visible'', StyleWrite Element Height ''auto'',
         StyleWrite Element MaxHeight ''none'', FrameYield, Delay 100, Capture,
         StyleWrite Element Overflow (overflow (style element)),
         StyleWrite Element Height (height (style element)),
         StyleWrite Element MaxHeight (maxHeight (style element))] cw ch fileName"
  using assms by (simp add: simpleGeneratePDF_def Let_def same_style)

lemma simple_run_empty_canvas:
  assumes "\<not> no_text element"
    and "html2canvas e = Canvas cw ch" and "cw = 0 \<or> ch = 0"
  shows "simpleGeneratePDF e element fileName =
      \<lparr>result = Inl (Error ''Canvas is empty''),
       dom = element,
       effects =
        [StyleWrite Element Overflow ''visible'', StyleWrite Element Height ''auto'',
         StyleWrite Element MaxHeight ''none'', FrameYield, Delay 100, Capture,
         StyleWrite Element Overflow (overflow (style element)),
         StyleWrite Element Height (height (style element)),
         StyleWrite Element MaxHeight (maxHeight (style element))],
       document = None\<rparr>"
  using assms by (auto simp add: simpleGeneratePDF_def Let_def failed_def same_style)

lemma simple_run_rejected:
  assumes "\<not> no_text element" and "html2canvas e = Rejects t"
  shows "simpleGeneratePDF e element fileName =
      \<lparr>result = Inl t,
       dom = element
         \<lparr>style := (style element)
            \<lparr>overflow := ''visible'', height := ''auto'', maxHeight := ''none''\<rparr>\<rparr>,
       effects =
        [StyleWrite Element Overflow ''visible'', StyleWrite Element Height ''auto'',
         StyleWrite Element MaxHeight ''none'', FrameYield, Delay 100, Capture],
       document = None\<rparr>"
  using assms by (simp add: simpleGeneratePDF_def Let_def failed_def)

lemma simple_assemble_dom: "dom (simple_assemble e el evs cw ch f) = el"
  by (simp add: simple_assemble_def Let_def failed_def split: sum.splits prod.splits)

lemma advanced_restores_unless_capture_rejects:
  assumes "\<forall>t. html2canvas e \<noteq> Rejects t"
  shows "dom (advancedGeneratePDF e element f) = element"
proof (cases "no_text element")
  case True
  then show ?thesis by (simp add: advancedGeneratePDF_def Let_def failed_def)
next
  case nonempty: False
  show ?thesis
  proof (cases "parentElement element")
    case None
    then show ?thesis using nonempty by (simp add: advancedGeneratePDF_def Let_def failed_def)
  next
    case (Some parent)
    obtain cw ch where c: "html2canvas e = Canvas cw ch"
      using assms by (cases "html2canvas e") auto
    show ?thesis
    proof (cases "cw = 0 \<or> ch = 0")
      case True
      from advanced_run_empty_canvas [OF nonempty Some c True] show ?thesis by simp
    next
      case False
      then have "0 < cw" "0 < ch" by simp_all
      from advanced_run_restored [OF nonempty Some c this] show ?thesis
        by (simp add: advanced_assemble_dom)
    qed
  qed
qed

lemma simple_restores_unless_capture_rejects:
  assumes "\<forall>t. html2canvas e \<noteq> Rejects t"
  shows "dom (simpleGeneratePDF e element f) = element"
proof (cases "no_text element")
  case True
  then show ?thesis by (simp add: simpleGeneratePDF_def Let_def failed_def)
next
  case nonempty: False
  obtain cw ch where c: "html2canvas e = Canvas cw ch"
    using assms by (cases "html2canvas e") auto
  show ?thesis
  proof (cases "cw = 0 \<or> ch = 0")
    case True
    from simple_run_empty_canvas [OF nonempty c True] show ?thesis by simp
  next
    case False
    then have "0 < cw" "0 < ch" by simp_all
    from simple_run_restored [OF nonempty c this] show ?thesis
      by (simp add: simple_assemble_dom)
  qed
qed

section \<open>Runs of generatePDF\<close>

lemma rethrown_no_content:
  "rethrown (Error ''The element appears to have no content to capture.'')
     = Error ''The element appears to have no content to capture.''"
  by (simp add: rethrown_def)

lemma rethrown_not_visible:
  "rethrown (Error ''The element is not visible and cannot be captured.'')
     = Error ''The element is not visible and cannot be captured.''"
  by (simp add: rethrown_def)

lemma rethrown_empty_canvas:
  "rethrown (Error (''Failed to capture content - canvas is empty. '' @
                    ''The element might not be visible or rendered properly.''))
     = Error (''Canvas generation failed: Failed to capture content - canvas is empty. '' @
              ''The element might not be visible or rendered properly.'' @
              ''. Try refreshing the page and ensure the content is fully loaded.'')"
  by (simp add: rethrown_def)

lemma rethrown_image_data:
  "rethrown (Error (''Failed to generate image from content. '' @
                    ''The content might be empty or not properly rendered.''))
     = Error (''Image processing failed: Failed to generate image from content. '' @
              ''The content might be empty or not properly rendered.'' @
              ''. Check if there are any problematic images in the content.'')"
  by (simp add: rethrown_def)

lemma prepare_settled:
  assumes "list_all settles (images element)"
  shows "prepareElementForCapture e element [Progress PreparingContentForPDF]
           = Some (element\<lparr>scrollTop := 0\<rparr>, prepare_effects e element)"
  using assms by (simp add: prepareElementForCapture_def prepare_effects_def Let_def)

lemma prepare_hangs:
  assumes "\<not> list_all settles (images element)"
  shows "prepareElementForCapture e element evs = None"
  using assms by (auto simp add: prepareElementForCapture_def Let_def)

lemma debugElement_scrollTop [simp]:
  "debugElement (element\<lparr>scrollTop := n\<rparr>) = debugElement element"
  by (simp add: debugElement_def)

lemma generate_run_no_content:
  assumes "list_all settles (images element)" and "\<not> hasContent (debugElement element)"
  shows "generatePDF e element f =
     Some \<lparr>result = Inl (Error ''The element appears to have no content to capture.''),
           dom = element\<lparr>scrollTop := 0\<rparr>,
           effects = prepare_effects e element,
           document = None\<rparr>"
  using assms
  by (simp add: generatePDF_def generatePDF_try_def prepare_settled failed_def
      rethrown_no_content)


lemma generate_run_empty_canvas:
  assumes "list_all settles (images element)" and "hasContent (debugElement element)"
    and "isVisible (debugElement element)"
    and "html2canvas e = Canvas cw ch" and "cw = 0 \<or> ch = 0"
  shows "generatePDF e element f =
     Some \<lparr>result = Inl (Error
             (''Canvas generation failed: Failed to capture content - canvas is empty. '' @
              ''The element might not be visible or rendered properly.'' @
              ''. Try refreshing the page and ensure the content is fully loaded.'')),
           dom = element\<lparr>scrollTop := 0\<rparr>,
           effects = prepare_effects e element @ [Progress CapturingContent, Capture],
           document = None\<rparr>"
  using assms rethrown_empty_canvas
  by (auto simp add: generatePDF_def generatePDF_try_def prepare_settled failed_def Let_def)

lemma example_facts:
  "\<not> no_text example_element"
  "parentElement example_element = Some example_parent"
  "hasContent (debugElement example_element)"
  "isVisible (debugElement example_element)"
  "list_all settles (images example_element)"
  by (simp_all add: no_text_def example_element_def trim_def is_white_space_def
      debugElement_def)

section \<open>The overlap loop and the save step\<close>





















lemma advanced_document_pages:
  assumes "\<not> no_text element" and "parentElement element = Some parent"
    and "html2canvas e = Canvas cw ch" and "0 < cw" and "0 < ch"
    and "\<forall>k. addImage_throws e k = None"
    and "0 < contentHeight (advanced_layout e cw ch)"
  shows "\<exists>d. document (advancedGeneratePDF e element f) = Some d
           \<and> pages d =
               (if imgHeight (advanced_layout e cw ch) \<le> contentHeight (advanced_layout e cw ch)
                then [[whole_image (advanced_layout e cw ch)]]
                else map (\<lambda>p. [slice_image (advanced_layout e cw ch) p])
                       [0..<nat (totalPages (advanced_layout e cw ch))])"
  unfolding advanced_run_restored [OF assms(1-5)]
  by (rule advanced_assemble_pages [OF assms(6,7)])

section \<open>Slice-based pagination: coverage\<close>



section \<open>Slice-based pagination: no overshoot\<close>

text \<open>
  Claim C4. For every captured raster and every page geometry with a positive content
  area, the end row \<open>yEnd\<close> of every slice, the last one included, is at most the
  raster height \<open>ch\<close>, since it is a minimum with \<open>ch\<close>. Every page of the document
  of \<^verbatim>\<open>advancedGeneratePDF\<close> holds exactly one image, and when that image is a slice
  it starts at a row \<open>s \<ge> 0\<close>, has a positive height and ends at or before row
  \<open>ch\<close>, so that no slice reads outside the raster and no page is blank; the number of
  pages is exactly \<open>\<lceil>imgHeight / contentHeight\<rceil>\<close>.
\<close>

theorem slice_rows_within_raster:
  assumes "\<not> no_text element"
    and "parentElement element = Some parent"
    and "html2canvas e = Canvas cw ch" and "0 < cw" and "0 < ch"
    and "\<forall>k. addImage_throws e k = None"
    and "g = advanced_layout e cw ch"
    and "0 < contentWidth g" and "0 < contentHeight g"
  shows "(\<forall>p. yEnd g p \<le> of_nat ch)
    \<and> (\<exists>d. document (advancedGeneratePDF e element fileName) = Some d
          \<and> length (pages d) = nat \<lceil>imgHeight g / contentHeight g\<rceil>
          \<and> (\<forall>pg \<in> set (pages d). \<exists>im. pg = [im] \<and>
                (\<forall>s hgt. data im = Slice s hgt \<longrightarrow>
                   0 \<le> s \<and> 0 < hgt \<and> s + hgt \<le> of_nat ch)))"
proof -
  let ?g = "advanced_layout e cw ch"
  have ch: "canvasHeight g = ch" and pos: "0 < canvasHeight g"
    using assms(5,7) by (simp_all add: advanced_layout_fields)
  have cH: "0 < contentHeight ?g" using assms(7,9) by simp
  have imgpos: "0 < imgHeight g"
    using assms(4,5,7,8) by (simp add: advanced_layout_fields)
  have c1: "\<forall>p. yEnd g p \<le> of_nat ch" using yEnd_le_canvas [of g] ch by simp
  note run = advanced_run_captured [OF assms(1-5)]
  from advanced_assemble_pages [OF assms(6) cH] obtain d where
    d: "document (advancedGeneratePDF e element fileName) = Some d"
      "pages d = (if imgHeight g \<le> contentHeight g then [[whole_image g]]
                  else map (\<lambda>p. [slice_image g p]) [0..<nat (totalPages g)])"
    unfolding run assms(7) by blast
  have len: "length (pages d) = nat \<lceil>imgHeight g / contentHeight g\<rceil>"
  proof (cases "imgHeight g \<le> contentHeight g")
    case True
    then show ?thesis
      using d(2) totalPages_single [OF imgpos True] by (simp add: totalPages_def)
  next
    case False
    then show ?thesis using d(2) by (simp add: totalPages_def)
  qed
  have inside: "\<forall>pg \<in> set (pages d). \<exists>im. pg = [im] \<and>
                (\<forall>s hgt. data im = Slice s hgt \<longrightarrow>
                   0 \<le> s \<and> 0 < hgt \<and> s + hgt \<le> of_nat ch)"
  proof (cases "imgHeight g \<le> contentHeight g")
    case True
    then show ?thesis using d(2) by (simp add: whole_image_def)
  next
    case False
    then have tall: "contentHeight g < imgHeight g" by simp
    show ?thesis
    proof
      fix pg assume "pg \<in> set (pages d)"
      then obtain p where p: "p < nat (totalPages g)" "pg = [slice_image g p]"
        using d(2) False by auto
      then have lt: "int p < totalPages g" by linarith
      have "0 \<le> yStart g p" by (rule yStart_nonneg [OF assms(9) tall])
      moreover have "0 < sliceHeight g p"
        using yStart_less_yEnd [OF assms(9) tall pos lt] by (simp add: sliceHeight_def)
      moreover have "yStart g p + sliceHeight g p \<le> of_nat ch"
        using c1 by (simp add: sliceHeight_def)
      ultimately show "\<exists>im. pg = [im] \<and>
                (\<forall>s hgt. data im = Slice s hgt \<longrightarrow>
                   0 \<le> s \<and> 0 < hgt \<and> s + hgt \<le> of_nat ch)"
        using p(2) by (simp add: slice_image_def Let_def)
    qed
  qed
  show ?thesis using c1 d(1) len inside by blast
qed

theorem slice_rows_within_raster_witness:
  "\<not> no_text example_element
   \<and> parentElement example_element = Some example_parent
   \<and> html2canvas (example_env 210 297 (Canvas 1000 2917)) = Canvas 1000 2917
   \<and> contentWidth (advanced_layout (example_env 210 297 (Canvas 1000 2917)) 1000 2917) = 190
   \<and> contentHeight (advanced_layout (example_env 210 297 (Canvas 1000 2917)) 1000 2917) = 277
   \<and> (\<exists>d. document (advancedGeneratePDF (example_env 210 297 (Canvas 1000 2917))
               example_element ''doc.pdf'') = Some d
          \<and> length (pages d) = 3
          \<and> [slice_image (advanced_layout (example_env 210 297 (Canvas 1000 2917)) 1000 2917) 2]
               \<in> set (pages d))
   \<and> data (slice_image (advanced_layout (example_env 210 297 (Canvas 1000 2917)) 1000 2917) 2)
        = Slice (55400 / 19) (23 / 19)
   \<and> (0::rat) \<le> 55400 / 19 \<and> (0::rat) < 23 / 19
   \<and> (55400 / 19 + 23 / 19 :: rat) \<le> 2917
   \<and> yEnd (advanced_layout (example_env 210 297 (Canvas 1000 2917)) 1000 2917) 2 \<le> 2917"
proof -
  let ?e = "example_env 210 297 (Canvas 1000 2917)"
  let ?g = "advanced_layout ?e 1000 2917"
  have h1: "\<not> no_text example_element"
    by (simp add: no_text_def example_element_def trim_def is_white_space_def)
  have h2: "parentElement example_element = Some example_parent"
    by (simp add: example_element_def)
  have h3: "html2canvas ?e = Canvas 1000 2917" by (simp add: example_env_def)
  have h4: "\<forall>k. addImage_throws ?e k = None" by (simp add: example_env_def)
  have z: "(0::nat) < 1000" "(0::nat) < 2917" by simp_all
  have f1: "contentWidth ?g = 190" "contentHeight ?g = 277"
    by (simp_all add: advanced_layout_fields example_env_def)
  have h5: "0 < contentWidth ?g" "0 < contentHeight ?g" by (simp_all add: f1)
  have n: "nat \<lceil>imgHeight ?g / contentHeight ?g\<rceil> = 3"
    by (simp add: advanced_layout_fields example_env_def ceiling_rat_numeral)
  have tall: "\<not> imgHeight ?g \<le> contentHeight ?g"
    by (simp add: advanced_layout_fields example_env_def)
  have sl: "data (slice_image ?g 2) = Slice (55400 / 19) (23 / 19)"
    by (simp add: slice_image_def sliceHeight_def yEnd_def yStart_def Let_def
        advanced_layout_fields example_env_def)
  note main = slice_rows_within_raster [OF h1 h2 h3 z h4 refl h5, of "''doc.pdf''"]
  from main obtain d where d:
    "document (advancedGeneratePDF ?e example_element ''doc.pdf'') = Some d"
    "length (pages d) = nat \<lceil>imgHeight ?g / contentHeight ?g\<rceil>"
    "\<forall>pg \<in> set (pages d). \<exists>im. pg = [im] \<and>
       (\<forall>s hgt. data im = Slice s hgt \<longrightarrow> 0 \<le> s \<and> 0 < hgt \<and> s + hgt \<le> of_nat 2917)"
    by blast
  from advanced_document_pages [OF h1 h2 h3 z h4 h5(2), of "''doc.pdf''"] obtain d' where
    "document (advancedGeneratePDF ?e example_element ''doc.pdf'') = Some d'"
    "pages d' = (if imgHeight ?g \<le> contentHeight ?g then [[whole_image ?g]]
                 else map (\<lambda>p. [slice_image ?g p]) [0..<nat (totalPages ?g)])"
    by blast
  then have d': "document (advancedGeneratePDF ?e example_element ''doc.pdf'') = Some d'"
    "pages d' = map (\<lambda>p. [slice_image ?g p]) [0..<nat (totalPages ?g)]"
    using tall by simp_all
  have mem: "[slice_image ?g 2] \<in> set (pages d)"
  proof -
    have "pages d = pages d'" using d(1) d'(1) by simp
    then have "pages d = map (\<lambda>p. [slice_image ?g p]) [0..<3]"
      using d'(2) n by (simp only: totalPages_def)
    then show ?thesis by (simp add: upt_rec numeral_2_eq_2)
  qed
  have bounds: "(0::rat) \<le> 55400 / 19 \<and> (0::rat) < 23 / 19
      \<and> (55400 / 19 + 23 / 19 :: rat) \<le> 2917"
  proof -
    from d(3) mem obtain im where im: "[slice_image ?g 2] = [im]"
      "\<forall>s hgt. data im = Slice s hgt \<longrightarrow> 0 \<le> s \<and> 0 < hgt \<and> s + hgt \<le> of_nat 2917"
      by blast
    then have "data im = Slice (55400 / 19) (23 / 19)" using sl by simp
    with im(2) show ?thesis by simp
  qed
  have c1: "yEnd ?g 2 \<le> 2917" using main by simp
  have c2: "\<exists>d. document (advancedGeneratePDF ?e example_element ''doc.pdf'') = Some d
          \<and> length (pages d) = 3 \<and> [slice_image ?g 2] \<in> set (pages d)"
    using d(1,2) mem n by simp
  show ?thesis using h1 h2 h3 f1 c2 sl bounds c1 by (intro conjI) simp_all
qed

section \<open>Slice-based pagination: the single-page path\<close>

text \<open>
  Claim C5. When the scaled image height \<open>imgHeight = ch * contentWidth / cw\<close> of the
  captured raster is at most the content height, \<^verbatim>\<open>advancedGeneratePDF\<close> produces a
  document of exactly one page, holding the whole raster at the margin offset (10 mm from
  the left and from the top), and no slice is extracted: no \<^verbatim>\<open>drawImage\<close> into a
  page canvas happens. The witness is the raster of 800 by 1000 pixels on a content area
  of 180 by 270 mm, with \<open>imgHeight = 225\<close>.
\<close>

theorem single_page_fast_path:
  assumes "\<not> no_text element"
    and "parentElement element = Some parent"
    and "html2canvas e = Canvas cw ch" and "0 < cw" and "0 < ch"
    and "addImage_throws e 0 = None"
    and "g = advanced_layout e cw ch"
    and "imgHeight g \<le> contentHeight g"
  shows "imgHeight g = of_nat ch * contentWidth g / of_nat cw
    \<and> (\<exists>d. document (advancedGeneratePDF e element fileName) = Some d
          \<and> pages d = [[\<lparr>data = WholeCanvas, x = margin g, y = margin g,
                          w = imgWidth g, h = imgHeight g\<rparr>]])
    \<and> margin g = 10
    \<and> (\<forall>s hgt. DrawImage s hgt \<notin> set (effects (advancedGeneratePDF e element fileName)))"
proof -
  have c1: "imgHeight g = of_nat ch * contentWidth g / of_nat cw"
    and c3: "margin g = 10"
    using assms(7) by (simp_all add: advanced_layout_fields)
  have le: "imgHeight (advanced_layout e cw ch) \<le> contentHeight (advanced_layout e cw ch)"
    using assms(7,8) by simp
  note run = advanced_run_captured [OF assms(1-5)]
  have c2: "\<exists>d. document (advancedGeneratePDF e element fileName) = Some d
          \<and> pages d = [[\<lparr>data = WholeCanvas, x = margin g, y = margin g,
                          w = imgWidth g, h = imgHeight g\<rparr>]]"
    unfolding run advanced_assemble_single(1) [OF assms(6) le]
    by (simp add: pages_def whole_image_def assms(7))
  have c4: "\<forall>s hgt. DrawImage s hgt \<notin> set (effects (advancedGeneratePDF e element fileName))"
    unfolding run advanced_assemble_single(2) [OF assms(6) le] by simp
  show ?thesis using c1 c2 c3 c4 by (intro conjI)
qed

theorem single_page_fast_path_witness:
  "\<not> no_text example_element
   \<and> parentElement example_element = Some example_parent
   \<and> html2canvas (example_env 200 290 (Canvas 800 1000)) = Canvas 800 1000
   \<and> contentHeight (advanced_layout (example_env 200 290 (Canvas 800 1000)) 800 1000) = 270
   \<and> imgHeight (advanced_layout (example_env 200 290 (Canvas 800 1000)) 800 1000) = 225
   \<and> (\<exists>d. document (advancedGeneratePDF (example_env 200 290 (Canvas 800 1000))
               example_element ''doc.pdf'') = Some d
          \<and> pages d = [[\<lparr>data = WholeCanvas, x = 10, y = 10, w = 180, h = 225\<rparr>]])
   \<and> (\<forall>s hgt. DrawImage s hgt \<notin> set (effects (advancedGeneratePDF
          (example_env 200 290 (Canvas 800 1000)) example_element ''doc.pdf'')))"
proof -
  let ?e = "example_env 200 290 (Canvas 800 1000)"
  let ?g = "advanced_layout ?e 800 1000"
  have h1: "\<not> no_text example_element"
    by (simp add: no_text_def example_element_def trim_def is_white_space_def)
  have h2: "parentElement example_element = Some example_parent"
    by (simp add: example_element_def)
  have h3: "html2canvas ?e = Canvas 800 1000" by (simp add: example_env_def)
  have h4: "addImage_throws ?e 0 = None" by (simp add: example_env_def)
  have f1: "contentHeight ?g = 270" "imgHeight ?g = 225" "margin ?g = 10" "imgWidth ?g = 180"
    by (simp_all add: advanced_layout_fields example_env_def)
  have h5: "imgHeight ?g \<le> contentHeight ?g" by (simp add: f1)
  note main = single_page_fast_path [OF h1 h2 h3 _ _ h4 refl h5, of "''doc.pdf''"]
  have pg: "\<exists>d. document (advancedGeneratePDF ?e example_element ''doc.pdf'') = Some d
          \<and> pages d = [[\<lparr>data = WholeCanvas, x = 10, y = 10, w = 180, h = 225\<rparr>]]"
    using main by (simp add: f1)
  have nd: "\<forall>s hgt. DrawImage s hgt \<notin> set (effects (advancedGeneratePDF ?e example_element ''doc.pdf''))"
    using main by simp
  show ?thesis using h1 h2 h3 f1(1,2) pg nd by (intro conjI)
qed

section \<open>Slice-based pagination: determinism\<close>

text \<open>
  Claim C9. Two runs of \<^verbatim>\<open>advancedGeneratePDF\<close> that capture rasters of equal
  pixel dimensions under equal page sizes build the same document, whatever the two
  elements (text, styles, scroll offset, images), the file names and the rest of the two
  environments are: the number of pages, the source rows and height of every slice and
  the position and size of every placed image are those of the layout, which is computed
  from the page size and the raster dimensions alone.
\<close>

theorem slice_pagination_deterministic:
  assumes "\<not> no_text el1" and "parentElement el1 = Some par1"
    and "\<not> no_text el2" and "parentElement el2 = Some par2"
    and "html2canvas e1 = Canvas cw ch" and "html2canvas e2 = Canvas cw ch"
    and "0 < cw" and "0 < ch"
    and "pageWidth e1 = pageWidth e2" and "pageHeight e1 = pageHeight e2"
    and "\<forall>k. addImage_throws e1 k = None" and "\<forall>k. addImage_throws e2 k = None"
    and "0 < contentHeight (advanced_layout e1 cw ch)"
  shows "\<exists>d. document (advancedGeneratePDF e1 el1 f1) = Some d
           \<and> document (advancedGeneratePDF e2 el2 f2) = Some d
           \<and> pages d =
               (if imgHeight (advanced_layout e1 cw ch) \<le> contentHeight (advanced_layout e1 cw ch)
                then [[whole_image (advanced_layout e1 cw ch)]]
                else map (\<lambda>p. [slice_image (advanced_layout e1 cw ch) p])
                       [0..<nat (totalPages (advanced_layout e1 cw ch))])"
proof -
  have g: "advanced_layout e2 cw ch = advanced_layout e1 cw ch"
    by (rule advanced_layout_cong) (simp_all only: assms(9,10))
  note run1 = advanced_run_captured [OF assms(1,2,5,7,8)]
  note run2 = advanced_run_captured [OF assms(3,4,6,7,8)]
  from advanced_assemble_pages [OF assms(11,13)] obtain d1 where
    d1: "document (advancedGeneratePDF e1 el1 f1) = Some d1"
      "pages d1 = (if imgHeight (advanced_layout e1 cw ch) \<le> contentHeight (advanced_layout e1 cw ch)
                then [[whole_image (advanced_layout e1 cw ch)]]
                else map (\<lambda>p. [slice_image (advanced_layout e1 cw ch) p])
                       [0..<nat (totalPages (advanced_layout e1 cw ch))])"
    unfolding run1 by blast
  have "0 < contentHeight (advanced_layout e2 cw ch)" using assms(13) g by simp
  from advanced_assemble_pages [OF assms(12) this] obtain d2 where
    d2: "document (advancedGeneratePDF e2 el2 f2) = Some d2"
      "pages d2 = (if imgHeight (advanced_layout e1 cw ch) \<le> contentHeight (advanced_layout e1 cw ch)
                then [[whole_image (advanced_layout e1 cw ch)]]
                else map (\<lambda>p. [slice_image (advanced_layout e1 cw ch) p])
                       [0..<nat (totalPages (advanced_layout e1 cw ch))])"
    unfolding run2 g by blast
  have "d2 = d1" using d1(2) d2(2) by (intro pages_inject) simp
  then show ?thesis using d1 d2 by blast
qed

theorem slice_pagination_deterministic_witness:
  "\<not> no_text example_element \<and> \<not> no_text other_element
   \<and> example_element \<noteq> other_element
   \<and> example_env 210 297 (Canvas 1000 2917) \<noteq> failing_save_env 210 297 (Canvas 1000 2917)
   \<and> (\<exists>d. document (advancedGeneratePDF (example_env 210 297 (Canvas 1000 2917))
               example_element ''a.pdf'') = Some d
          \<and> document (advancedGeneratePDF (failing_save_env 210 297 (Canvas 1000 2917))
               other_element ''b.pdf'') = Some d
          \<and> length (pages d) = 3)"
proof -
  let ?e1 = "example_env 210 297 (Canvas 1000 2917)"
  let ?e2 = "failing_save_env 210 297 (Canvas 1000 2917)"
  let ?g = "advanced_layout ?e1 1000 2917"
  have t1: "\<not> no_text example_element"
    by (simp add: no_text_def example_element_def trim_def is_white_space_def)
  have t2: "\<not> no_text other_element"
    by (simp add: no_text_def other_element_def trim_def is_white_space_def)
  have p1: "parentElement example_element = Some example_parent"
    by (simp add: example_element_def)
  have p2: "parentElement other_element = Some \<lparr>overflow = [], height = ''100%'', maxHeight = []\<rparr>"
    by (simp add: other_element_def)
  have c1: "html2canvas ?e1 = Canvas 1000 2917" by (simp add: example_env_def)
  have c2: "html2canvas ?e2 = Canvas 1000 2917" by (simp add: failing_save_env_def)
  have w: "pageWidth ?e1 = pageWidth ?e2" "pageHeight ?e1 = pageHeight ?e2"
    by (simp_all add: example_env_def failing_save_env_def)
  have n1: "\<forall>k. addImage_throws ?e1 k = None" by (simp add: example_env_def)
  have n2: "\<forall>k. addImage_throws ?e2 k = None" by (simp add: failing_save_env_def)
  have pos: "0 < contentHeight ?g" by (simp add: advanced_layout_fields example_env_def)
  have tall: "\<not> imgHeight ?g \<le> contentHeight ?g"
    by (simp add: advanced_layout_fields example_env_def)
  have n: "nat (totalPages ?g) = 3"
    by (simp add: totalPages_def advanced_layout_fields example_env_def ceiling_rat_numeral)
  have ne1: "example_element \<noteq> other_element"
    by (simp add: example_element_def other_element_def)
  have ne2: "?e1 \<noteq> ?e2" by (simp add: example_env_def failing_save_env_def)
  have z: "(0::nat) < 1000" "(0::nat) < 2917" by simp_all
  note main = slice_pagination_deterministic [OF t1 p1 t2 p2 c1 c2 z w n1 n2 pos,
      of "''a.pdf''" "''b.pdf''"]
  have same: "\<exists>d. document (advancedGeneratePDF ?e1 example_element ''a.pdf'') = Some d
          \<and> document (advancedGeneratePDF ?e2 other_element ''b.pdf'') = Some d
          \<and> length (pages d) = 3"
  proof -
    from main obtain d where d:
      "document (advancedGeneratePDF ?e1 example_element ''a.pdf'') = Some d
       \<and> document (advancedGeneratePDF ?e2 other_element ''b.pdf'') = Some d
       \<and> pages d = (if imgHeight ?g \<le> contentHeight ?g then [[whole_image ?g]]
                else map (\<lambda>p. [slice_image ?g p]) [0..<nat (totalPages ?g)])" ..
    then have "pages d = map (\<lambda>p. [slice_image ?g p]) [0..<nat (totalPages ?g)]"
      using tall by (simp only: if_False)
    then have "length (pages d) = 3" by (simp only: length_map length_upt n diff_zero)
    with d show ?thesis by (intro exI [of _ d]) (simp only: simp_thms)
  qed
  show ?thesis using t1 t2 ne1 ne2 same by (intro conjI)
qed

section \<open>The parent element\<close>



section \<open>An empty canvas\<close>

text \<open>
  Claim C7. When the rasterizer returns a canvas of width 0 or height 0, each utility
  fails with its capture error, raised after the capture call and before a document
  exists (so no \<^verbatim>\<open>addImage\<close> and no \<^verbatim>\<open>addPage\<close>); the element is left with
  its original styles, which \<^verbatim>\<open>advancedGeneratePDF\<close> and
  \<^verbatim>\<open>simpleGeneratePDF\<close> write back before the check and \<^verbatim>\<open>generatePDF\<close> never
  changes; and the error differs from the no-content error of the same utility.
\<close>

theorem empty_canvas_is_capture_error:
  assumes "\<not> no_text element" and "parentElement element = Some parent"
    and "hasContent (debugElement element)" and "isVisible (debugElement element)"
    and "list_all settles (images element)"
    and "html2canvas e = Canvas cw ch" and "cw = 0 \<or> ch = 0"
  shows "advancedGeneratePDF e element f =
      \<lparr>result = Inl (Error ''Failed to capture content - canvas is empty''),
       dom = element,
       effects =
         [Progress PreparingContent,
          StyleWrite Element Overflow ''visible'', StyleWrite Element Height ''auto'',
          StyleWrite Element MaxHeight ''none'', StyleWrite Parent Overflow ''visible'',
          StyleWrite Parent Height ''auto'', FrameYield, Delay 200, FrameYield, Delay 200,
          Progress CapturingContent, Capture,
          StyleWrite Element Overflow (overflow (style element)),
          StyleWrite Element Height (height (style element)),
          StyleWrite Element MaxHeight (maxHeight (style element)),
          StyleWrite Parent Overflow (overflow parent),
          StyleWrite Parent Height (height parent)],
       document = None\<rparr>
    \<and> Error ''Failed to capture content - canvas is empty'' \<noteq> Error ''Element has no content''
    \<and> simpleGeneratePDF e element f =
      \<lparr>result = Inl (Error ''Canvas is empty''),
       dom = element,
       effects =
        [StyleWrite Element Overflow ''visible'', StyleWrite Element Height ''auto'',
         StyleWrite Element MaxHeight ''none'', FrameYield, Delay 100, Capture,
         StyleWrite Element Overflow (overflow (style element)),
         StyleWrite Element Height (height (style element)),
         StyleWrite Element MaxHeight (maxHeight (style element))],
       document = None\<rparr>
    \<and> Error ''Canvas is empty'' \<noteq> Error ''Element has no content''
    \<and> generatePDF e element f =
     Some \<lparr>result = Inl (Error
             (''Canvas generation failed: Failed to capture content - canvas is empty. '' @
              ''The element might not be visible or rendered properly.'' @
              ''. Try refreshing the page and ensure the content is fully loaded.'')),
           dom = element\<lparr>scrollTop := 0\<rparr>,
           effects = prepare_effects e element @ [Progress CapturingContent, Capture],
           document = None\<rparr>
    \<and> Error (''Canvas generation failed: Failed to capture content - canvas is empty. '' @
              ''The element might not be visible or rendered properly.'' @
              ''. Try refreshing the page and ensure the content is fully loaded.'')
        \<noteq> Error ''The element appears to have no content to capture.''
    \<and> style (element\<lparr>scrollTop := 0\<rparr>) = style element
    \<and> parentElement (element\<lparr>scrollTop := 0\<rparr>) = parentElement element"
proof -
  note a = advanced_run_empty_canvas [OF assms(1,2,6,7), of f]
  note s = simple_run_empty_canvas [OF assms(1,6,7), of f]
  note g = generate_run_empty_canvas [OF assms(5,3,4,6,7), of f]
  show ?thesis using a s g by (intro conjI) simp_all
qed

theorem empty_canvas_is_capture_error_witness:
  "\<not> no_text example_element \<and> parentElement example_element = Some example_parent
   \<and> hasContent (debugElement example_element) \<and> isVisible (debugElement example_element)
   \<and> list_all settles (images example_element)
   \<and> html2canvas (example_env 210 297 (Canvas 0 600)) = Canvas 0 600
   \<and> result (advancedGeneratePDF (example_env 210 297 (Canvas 0 600)) example_element
        ''doc.pdf'') = Inl (Error ''Failed to capture content - canvas is empty'')
   \<and> dom (advancedGeneratePDF (example_env 210 297 (Canvas 0 600)) example_element
        ''doc.pdf'') = example_element
   \<and> document (advancedGeneratePDF (example_env 210 297 (Canvas 0 600)) example_element
        ''doc.pdf'') = None"
proof -
  have c: "html2canvas (example_env 210 297 (Canvas 0 600)) = Canvas 0 600"
    by (simp add: example_env_def)
  have z: "(0::nat) = 0 \<or> (600::nat) = 0" by simp
  note main = empty_canvas_is_capture_error [OF example_facts c z, of "''doc.pdf''"]
  have r: "advancedGeneratePDF (example_env 210 297 (Canvas 0 600)) example_element ''doc.pdf'' =
      \<lparr>result = Inl (Error ''Failed to capture content - canvas is empty''),
       dom = example_element,
       effects =
         [Progress PreparingContent,
          StyleWrite Element Overflow ''visible'', StyleWrite Element Height ''auto'',
          StyleWrite Element MaxHeight ''none'', StyleWrite Parent Overflow ''visible'',
          StyleWrite Parent Height ''auto'', FrameYield, Delay 200, FrameYield, Delay 200,
          Progress CapturingContent, Capture,
          StyleWrite Element Overflow (overflow (style example_element)),
          StyleWrite Element Height (height (style example_element)),
          StyleWrite Element MaxHeight (maxHeight (style example_element)),
          StyleWrite Parent Overflow (overflow example_parent),
          StyleWrite Parent Height (height example_parent)],
       document = None\<rparr>"
    using main by (rule conjunct1)
  show ?thesis using example_facts c by (intro conjI) (simp_all add: r)
qed

section \<open>Style restoration\<close>

text \<open>
  Claim C2 says that after any run, also one that throws during capture, the inline
  styles of the element and of its parent equal their values before the run. The
  utilities restore the styles in the statement after \<^verbatim>\<open>await html2canvas\<close>, and
  their \<^verbatim>\<open>catch\<close> block only logs and rethrows. When the rasterizer rejects, the
  run of \<^verbatim>\<open>advancedGeneratePDF\<close> on an element with \<^verbatim>\<open>overflow: auto; height: 400px\<close>
  inside a parent with \<^verbatim>\<open>overflow: hidden\<close> leaves the element with
  \<^verbatim>\<open>visible\<close>, \<^verbatim>\<open>auto\<close>, \<^verbatim>\<open>none\<close> and the parent with \<^verbatim>\<open>visible\<close>,
  \<^verbatim>\<open>auto\<close>; \<^verbatim>\<open>simpleGeneratePDF\<close> leaves the element expanded in the same way.
  On every other path the styles are restored (lemmas
  \<open>advanced_restores_unless_capture_rejects\<close> and
  \<open>simple_restores_unless_capture_rejects\<close>).
\<close>

theorem styles_stay_expanded_when_capture_rejects:
  "advancedGeneratePDF (example_env 210 297 (Rejects (Error ''capture failed'')))
      example_element ''doc.pdf'' =
     \<lparr>result = Inl (Error ''capture failed''),
      dom = example_element
        \<lparr>style := \<lparr>overflow = ''visible'', height = ''auto'', maxHeight = ''none''\<rparr>,
         parentElement := Some \<lparr>overflow = ''visible'', height = ''auto'', maxHeight = []\<rparr>\<rparr>,
      effects =
        [Progress PreparingContent,
         StyleWrite Element Overflow ''visible'', StyleWrite Element Height ''auto'',
         StyleWrite Element MaxHeight ''none'', StyleWrite Parent Overflow ''visible'',
         StyleWrite Parent Height ''auto'', FrameYield, Delay 200, FrameYield, Delay 200,
         Progress CapturingContent, Capture],
      document = None\<rparr>
   \<and> style example_element = \<lparr>overflow = ''auto'', height = ''400px'', maxHeight = []\<rparr>
   \<and> parentElement example_element
        = Some \<lparr>overflow = ''hidden'', height = [], maxHeight = []\<rparr>
   \<and> simpleGeneratePDF (example_env 210 297 (Rejects (Error ''capture failed'')))
      example_element ''doc.pdf'' =
     \<lparr>result = Inl (Error ''capture failed''),
      dom = example_element
        \<lparr>style := \<lparr>overflow = ''visible'', height = ''auto'', maxHeight = ''none''\<rparr>\<rparr>,
      effects =
        [StyleWrite Element Overflow ''visible'', StyleWrite Element Height ''auto'',
         StyleWrite Element MaxHeight ''none'', FrameYield, Delay 100, Capture],
      document = None\<rparr>"
proof -
  have c: "html2canvas (example_env 210 297 (Rejects (Error ''capture failed'')))
             = Rejects (Error ''capture failed'')"
    by (simp add: example_env_def)
  note a = advanced_run_rejected [OF example_facts(1,2) c, of "''doc.pdf''"]
  note s = simple_run_rejected [OF example_facts(1) c, of "''doc.pdf''"]
  show ?thesis
    unfolding a s by (simp add: example_element_def example_parent_def)
qed

section \<open>Elements without text\<close>

text \<open>
  Claim C3 says that every entry point rejects an element with empty or whitespace-only
  text before any preparation step. \<^verbatim>\<open>generatePDF\<close> runs
  \<^verbatim>\<open>prepareElementForCapture\<close> first (scroll reset, frame yields, font wait, settle
  delay) and validates afterwards, and its test is the length of the text, untrimmed: an
  element with empty text is rejected after the preparation, and an element with
  whitespace only reaches the rasterizer.
\<close>

theorem generatePDF_prepares_before_rejecting:
  "generatePDF (example_env 210 297 (Canvas 1000 2917)) blank_element ''doc.pdf'' =
     Some \<lparr>result = Inl (Error ''The element appears to have no content to capture.''),
           dom = blank_element\<lparr>scrollTop := 0\<rparr>,
           effects = [Progress PreparingContentForPDF, ScrollToTop, FrameYield, FrameYield,
                      FontsReady, Delay 500],
           document = None\<rparr>
   \<and> no_text whitespace_element
   \<and> generatePDF (example_env 210 297 (Canvas 0 0)) whitespace_element ''doc.pdf'' =
     Some \<lparr>result = Inl (Error
             (''Canvas generation failed: Failed to capture content - canvas is empty. '' @
              ''The element might not be visible or rendered properly.'' @
              ''. Try refreshing the page and ensure the content is fully loaded.'')),
           dom = whitespace_element\<lparr>scrollTop := 0\<rparr>,
           effects = [Progress PreparingContentForPDF, ScrollToTop, FrameYield, FrameYield,
                      FontsReady, Delay 500, Progress CapturingContent, Capture],
           document = None\<rparr>"
proof -
  have b: "list_all settles (images blank_element)" "\<not> hasContent (debugElement blank_element)"
    by (simp_all add: blank_element_def example_element_def debugElement_def)
  have w: "list_all settles (images whitespace_element)"
    "hasContent (debugElement whitespace_element)" "isVisible (debugElement whitespace_element)"
    by (simp_all add: whitespace_element_def example_element_def debugElement_def)
  have nt: "no_text whitespace_element"
    by (simp add: whitespace_element_def no_text_def trim_def is_white_space_def)
  have c: "html2canvas (example_env 210 297 (Canvas 0 0)) = Canvas 0 0"
    by (simp add: example_env_def)
  have z: "(0::nat) = 0 \<or> (0::nat) = 0" by simp
  have p: "prepare_effects (example_env 210 297 cap) blank_element =
      [Progress PreparingContentForPDF, ScrollToTop, FrameYield, FrameYield, FontsReady, Delay 500]"
    "prepare_effects (example_env 210 297 cap) whitespace_element =
      [Progress PreparingContentForPDF, ScrollToTop, FrameYield, FrameYield, FontsReady, Delay 500]"
    for cap
    by (simp_all add: prepare_effects_def example_env_def blank_element_def
        whitespace_element_def example_element_def)
  show ?thesis
    unfolding generate_run_no_content [OF b] generate_run_empty_canvas [OF w c z] p
    using nt by simp
qed

text \<open>
  Claim C3, amended. For an element with empty or whitespace-only text,
  \<^verbatim>\<open>advancedGeneratePDF\<close> and \<^verbatim>\<open>simpleGeneratePDF\<close> fail at once with the
  no-content error: no style is written, no frame yield, no delay and no capture happens
  (\<^verbatim>\<open>advancedGeneratePDF\<close> has reported its first progress message).
  \<^verbatim>\<open>generatePDF\<close> runs its preparation step first and then, for an element with
  empty text whose pending images all settle, fails with its no-content error before
  any capture call.
\<close>

theorem empty_content_rejected_first:
  assumes "no_text element"
    and "textContent element' = None \<or> textContent element' = Some []"
    and "list_all settles (images element')"
  shows "advancedGeneratePDF e element f =
      \<lparr>result = Inl (Error ''Element has no content''), dom = element,
       effects = [Progress PreparingContent], document = None\<rparr>
    \<and> simpleGeneratePDF e element f =
      \<lparr>result = Inl (Error ''Element has no content''), dom = element,
       effects = [], document = None\<rparr>
    \<and> generatePDF e element' f =
      Some \<lparr>result = Inl (Error ''The element appears to have no content to capture.''),
            dom = element'\<lparr>scrollTop := 0\<rparr>,
            effects = prepare_effects e element',
            document = None\<rparr>
    \<and> Capture \<notin> set (prepare_effects e element')"
proof -
  have nc: "\<not> hasContent (debugElement element')"
    using assms(2) by (auto simp add: debugElement_def)
  show ?thesis
    using assms(1) generate_run_no_content [OF assms(3) nc, of e f]
    by (simp add: advancedGeneratePDF_def simpleGeneratePDF_def Let_def failed_def
        prepare_effects_def)
qed

theorem empty_content_rejected_first_witness:
  "no_text whitespace_element
   \<and> (textContent blank_element = None \<or> textContent blank_element = Some [])
   \<and> list_all settles (images blank_element)
   \<and> advancedGeneratePDF (example_env 210 297 (Canvas 1000 2917)) whitespace_element ''doc.pdf'' =
      \<lparr>result = Inl (Error ''Element has no content''), dom = whitespace_element,
       effects = [Progress PreparingContent], document = None\<rparr>
   \<and> simpleGeneratePDF (example_env 210 297 (Canvas 1000 2917)) whitespace_element ''doc.pdf'' =
      \<lparr>result = Inl (Error ''Element has no content''), dom = whitespace_element,
       effects = [], document = None\<rparr>
   \<and> generatePDF (example_env 210 297 (Canvas 1000 2917)) blank_element ''doc.pdf'' =
      Some \<lparr>result = Inl (Error ''The element appears to have no content to capture.''),
            dom = blank_element\<lparr>scrollTop := 0\<rparr>,
            effects = prepare_effects (example_env 210 297 (Canvas 1000 2917)) blank_element,
            document = None\<rparr>"
proof -
  have h1: "no_text whitespace_element"
    by (simp add: whitespace_element_def no_text_def trim_def is_white_space_def)
  have h2: "textContent blank_element = None \<or> textContent blank_element = Some []"
    by (simp add: blank_element_def)
  have h3: "list_all settles (images blank_element)"
    by (simp add: blank_element_def example_element_def)
  note main = empty_content_rejected_first [OF h1 h2 h3,
      of "example_env 210 297 (Canvas 1000 2917)" "''doc.pdf''"]
  show ?thesis using h1 h2 h3 main by (intro conjI) simp_all
qed

section \<open>Overlap-based pagination against its specification\<close>



section \<open>Failure of the save step\<close>




end
